theory Spec2Isabelle
  imports Complex_Main "HOL-Library.Sublist"
begin

section \<open>Python strings\<close>

text \<open>
  The notebooks are Python. A \<open>str\<close> is modelled as a \<^typ>\<open>string\<close> of ASCII
  characters; characters outside ASCII are carried along unchanged by every operation below.
\<close>

text \<open>\<open>str.lower()\<close>: the letters \<open>A\<close>..\<open>Z\<close> move to \<open>a\<close>..\<open>z\<close>.\<close>

definition lower_char :: "char \<Rightarrow> char" where
  "lower_char c =
     (let n = (of_char c :: nat) in if 65 \<le> n \<and> n \<le> 90 then char_of (n + 32) else c)"

definition lower :: "string \<Rightarrow> string" where
  "lower s = map lower_char s"

text \<open>\<open>t in s\<close> on two strings: \<open>t\<close> occurs in \<open>s\<close> as a contiguous run.\<close>

fun starts_with :: "string \<Rightarrow> string \<Rightarrow> bool" where
  "starts_with s [] = True"
| "starts_with [] (d # t) = False"
| "starts_with (c # s) (d # t) = (c = d \<and> starts_with s t)"

fun contains :: "string \<Rightarrow> string \<Rightarrow> bool" where
  "contains [] t = (t = [])"
| "contains (c # s) t = (starts_with (c # s) t \<or> contains s t)"

text \<open>\<open>sep.join(xs)\<close>.\<close>

fun join :: "string \<Rightarrow> string list \<Rightarrow> string" where
  "join sep [] = []"
| "join sep [x] = x"
| "join sep (x # y # ys) = x @ sep @ join sep (y # ys)"

section \<open>Hybrid RAG notebook: retrieval and prompt\<close>

text \<open>
  \<open>retrieve_documents(query)\<close> of the Hybrid RAG notebook: a placeholder that ignores its
  argument.
\<close>

definition hybrid_retrieve_documents :: "string \<Rightarrow> string list" where
  "hybrid_retrieve_documents query =
     [''New York is famous for its pizza. Some popular spots include Joe's Pizza, Lombardi's, and Di Fara Pizza.'',
      ''New York pizza is known for its thin crust and unique flavor, often attributed to the city's water.'']"

text \<open>\<open>context = "\n".join(retrieved_docs)\<close>.\<close>

definition hybrid_context :: "string \<Rightarrow> string" where
  "hybrid_context user_input = join ''\<newline>'' (hybrid_retrieve_documents user_input)"

text \<open>\<open>combined_input = f"User query: {user_input}\n\nContext:\n{context}"\<close>.\<close>

definition combined_input :: "string \<Rightarrow> string" where
  "combined_input user_input =
     ''User query: '' @ user_input @ ''\<newline>\<newline>Context:\<newline>'' @ hybrid_context user_input"

section \<open>Corrective Financial RAG notebook\<close>

text \<open>
  Exceptions that the modelled code can raise or meet. \<open>BackendError\<close> stands for any
  exception of class \<open>Exception\<close> raised inside a third-party call (model runtime, HTTP
  client, JSON decoding); its argument is the message.
\<close>

datatype error = ValueError | TypeError | KeyError | IndexError | EOFError | BackendError string

text \<open>
  \<open>database\<close> is a \<open>dict\<close> from document ids to \<open>{"text": ..., "metadata": [...]}\<close>.
  A \<open>dict\<close> iterates in insertion order, so it is an association list.
\<close>

record doc_data =
  doc_text :: string
  metadata :: "string list"

type_synonym database = "(string \<times> doc_data) list"

definition database :: database where
  "database =
    [(''doc1'', \<lparr>doc_text = ''Company X has significant liquidity risk due to its high debt ratio.'',
                metadata = [''liquidity risk'', ''debt'']\<rparr>),
     (''doc2'', \<lparr>doc_text = ''Company X maintains a solid cash reserve, which mitigates some of the liquidity concerns.'',
                metadata = [''cash reserve'', ''liquidity'']\<rparr>),
     (''doc3'', \<lparr>doc_text = ''The current market conditions have led to increased liquidity stress for many firms, including Company X.'',
                metadata = [''market conditions'', ''liquidity stress'']\<rparr>),
     (''doc4'', \<lparr>doc_text = ''Company X has recently restructured its debt, which lowers its short-term liquidity risk.'',
                metadata = [''debt restructuring'', ''liquidity risk'']\<rparr>)]"

definition user_query :: string where
  "user_query = ''What is the liquidity risk for Company X?''"

subsection \<open>Step 2: retrieval by metadata tags\<close>

text \<open>
  \<^verbatim>\<open>
  def retrieve_documents(query, database):
      relevant_docs = []
      for doc_id, doc_data in database.items():
          text = doc_data['text']
          metadata = doc_data['metadata']
          if any(tag in query.lower() for tag in metadata):
              relevant_docs.append(text)
      return relevant_docs
  \<close>
  The loop carries \<open>relevant_docs\<close>.
\<close>

definition tag_matches :: "string \<Rightarrow> doc_data \<Rightarrow> bool" where
  "tag_matches query d = list_ex (\<lambda>tag. contains (lower query) tag) (metadata d)"

fun retrieve_loop :: "string \<Rightarrow> database \<Rightarrow> string list \<Rightarrow> string list" where
  "retrieve_loop query [] relevant_docs = relevant_docs"
| "retrieve_loop query ((doc_id, d) # items) relevant_docs =
     (if tag_matches query d
      then retrieve_loop query items (relevant_docs @ [doc_text d])
      else retrieve_loop query items relevant_docs)"

definition retrieve_documents :: "string \<Rightarrow> database \<Rightarrow> string list" where
  "retrieve_documents query db = retrieve_loop query db []"

subsection \<open>Step 3: preprocessing\<close>

text \<open>
  \<open>str.split()\<close> without an argument cuts at runs of whitespace and yields no empty
  piece. The accumulator holds the current piece, reversed.
\<close>

definition is_space :: "char \<Rightarrow> bool" where
  "is_space c = (let n = (of_char c :: nat) in (9 \<le> n \<and> n \<le> 13) \<or> (28 \<le> n \<and> n \<le> 32))"

fun split_ws :: "string \<Rightarrow> string \<Rightarrow> string list" where
  "split_ws acc [] = (if acc = [] then [] else [rev acc])"
| "split_ws acc (c # cs) =
     (if is_space c then (if acc = [] then split_ws [] cs else rev acc # split_ws [] cs)
      else split_ws (c # acc) cs)"

text \<open>\<open>preprocess_text(text)\<close>: \<open>text.lower().split()\<close>.\<close>

definition preprocess_text :: "string \<Rightarrow> string list" where
  "preprocess_text t = split_ws [] (lower t)"

subsection \<open>Steps 4 to 6: indexing and ranking\<close>

text \<open>
  \<open>TfidfVectorizer().fit_transform(documents)\<close> learns the vocabulary of the documents and
  raises \<open>ValueError\<close> ("empty vocabulary") when no document yields a term; an empty list
  of documents yields none. The analyzer (lower-casing, token pattern) is scikit-learn's
  and is a parameter here; only the outcome of the fit matters below.
\<close>

definition fit_transform :: "(string \<Rightarrow> string list) \<Rightarrow> string list \<Rightarrow> error + string list" where
  "fit_transform analyzer documents =
     (let vocabulary = remdups (concat (map analyzer documents))
      in if vocabulary = [] then Inl ValueError else Inr vocabulary)"

text \<open>
  \<open>np.argsort(similarities)\<close> is NumPy's, a collaborator, and a parameter here. What NumPy
  promises of its result is \<open>is_argsort\<close>: the indices of the scores, each once, in an order
  that puts the scores in ascending order. The default sort is not stable: among equal
  scores the order of the indices is left open. Scores are any linearly ordered values
  (cosine similarities are floats without NaN).
\<close>

definition is_argsort :: "'a::linorder list \<Rightarrow> nat list \<Rightarrow> bool" where
  "is_argsort similarities idx =
     (distinct idx \<and> set idx = {..<length similarities}
      \<and> sorted (map (\<lambda>i. similarities ! i) idx))"

text \<open>\<open>ranked_doc_indices = np.argsort(similarities)[::-1]\<close>.\<close>

definition ranked_doc_indices :: "('a list \<Rightarrow> nat list) \<Rightarrow> 'a list \<Rightarrow> nat list" where
  "ranked_doc_indices argsort similarities = rev (argsort similarities)"

text \<open>
  \<open>ranked_docs = [documents[i] for i in ranked_doc_indices]\<close>. An index beyond the
  documents would raise \<open>IndexError\<close>.
\<close>

definition ranked_docs ::
  "('a list \<Rightarrow> nat list) \<Rightarrow> string list \<Rightarrow> 'a list \<Rightarrow> error + string list" where
  "ranked_docs argsort documents similarities =
     (if list_all (\<lambda>i. i < length documents) (ranked_doc_indices argsort similarities)
      then Inr (map (\<lambda>i. documents ! i) (ranked_doc_indices argsort similarities))
      else Inl IndexError)"

subsection \<open>Steps 7 and 8: generation and the corrective check\<close>

text \<open>
  A generation is \<open>tokenizer.encode\<close>, \<open>model.generate(..., max_length=100,
  num_return_sequences=1)\<close> and \<open>tokenizer.decode\<close>: GPT-2, a collaborator. It is a
  parameter that maps a request to the decoded text or to the exception it raised. The
  first generation passes an attention mask, the corrective one does not.
\<close>

record gen_request =
  prompt :: string
  attention_mask :: bool

type_synonym generator = "gen_request \<Rightarrow> error + string"

text \<open>
  \<^verbatim>\<open>
  def corrective_rag(generated_text, database):
      if "liquidity risk" not in generated_text:
          additional_docs = retrieve_documents("liquidity risk", database)
          additional_context = " ".join(additional_docs[:2])
          input_ids = tokenizer.encode(additional_context, return_tensors='pt')
          output = model.generate(input_ids, max_length=100, num_return_sequences=1)
          return tokenizer.decode(output[0], ...)
      return generated_text
  \<close>
  The last argument and the second component of the result are the log of requests sent
  to the generator so far.
\<close>

definition corrective_rag ::
  "generator \<Rightarrow> string \<Rightarrow> database \<Rightarrow> gen_request list \<Rightarrow> (error + string) \<times> gen_request list" where
  "corrective_rag generate generated_text db calls =
     (if \<not> contains generated_text ''liquidity risk'' then
        (let additional_docs = retrieve_documents ''liquidity risk'' db;
             additional_context = join '' '' (take 2 additional_docs);
             request = \<lparr>prompt = additional_context, attention_mask = False\<rparr>
         in (generate request, calls @ [request]))
      else (Inr generated_text, calls))"

text \<open>
  The notebook's top-level script from retrieval to \<open>final_response\<close>. \<open>similarity q ds i\<close>
  is the cosine similarity of the TF-IDF vectors of query \<open>q\<close> and document \<open>i\<close> of \<open>ds\<close>
  (floating point, a parameter), one score for each document. \<open>preprocessed_docs\<close> is
  computed by the script and never used. An exception ends the script where it is raised.
\<close>

definition pipeline ::
  "('a list \<Rightarrow> nat list) \<Rightarrow> (string \<Rightarrow> string list) \<Rightarrow> (string \<Rightarrow> string list \<Rightarrow> nat \<Rightarrow> 'a)
     \<Rightarrow> generator \<Rightarrow> string \<Rightarrow> database \<Rightarrow> (error + string) \<times> gen_request list" where
  "pipeline argsort analyzer similarity generate query db =
     (let documents = retrieve_documents query db in
      case fit_transform analyzer documents of
        Inl e \<Rightarrow> (Inl e, [])
      | Inr vocabulary \<Rightarrow>
          (let similarities = map (similarity query documents) [0..<length documents] in
           case ranked_docs argsort documents similarities of
             Inl e \<Rightarrow> (Inl e, [])
           | Inr ranked \<Rightarrow>
               (let context = join '' '' (take 2 ranked);
                    request = \<lparr>prompt = context, attention_mask = True\<rparr>
                in case generate request of
                     Inl e \<Rightarrow> (Inl e, [request])
                   | Inr generated_text \<Rightarrow> corrective_rag generate generated_text db [request])))"

section \<open>The chatbots (Hybrid RAG and AWS Generative Chatbot notebooks)\<close>

subsection \<open>Decoded JSON\<close>

text \<open>
  \<open>json.loads\<close> returns \<open>None\<close>, a \<open>bool\<close>, a number, a \<open>str\<close>, a \<open>list\<close> or a
  \<open>dict\<close> with string keys. A \<open>dict\<close> is the list of its items, each key once.
\<close>

datatype pyval =
  PNone | PBool bool | PNum real | PStr string | PList "pyval list" | PDict "(string \<times> pyval) list"

text \<open>The truth value that \<open>if x:\<close> and \<open>and\<close> test.\<close>

fun truthy :: "pyval \<Rightarrow> bool" where
  "truthy PNone = False"
| "truthy (PBool b) = b"
| "truthy (PNum x) = (x \<noteq> 0)"
| "truthy (PStr s) = (s \<noteq> [])"
| "truthy (PList xs) = (xs \<noteq> [])"
| "truthy (PDict kvs) = (kvs \<noteq> [])"

text \<open>
  \<open>k in x\<close> for a string \<open>k\<close>: key membership in a \<open>dict\<close>, element membership in a
  \<open>list\<close>, substring in a \<open>str\<close>; \<open>TypeError\<close> on anything else.
\<close>

fun py_in :: "string \<Rightarrow> pyval \<Rightarrow> error + bool" where
  "py_in k (PDict kvs) = Inr (k \<in> set (map fst kvs))"
| "py_in k (PList xs) = Inr (PStr k \<in> set xs)"
| "py_in k (PStr s) = Inr (contains s k)"
| "py_in k PNone = Inl TypeError"
| "py_in k (PBool b) = Inl TypeError"
| "py_in k (PNum x) = Inl TypeError"

text \<open>\<open>x[k]\<close> for a string \<open>k\<close>: only a \<open>dict\<close> accepts it.\<close>

fun getitem_key :: "pyval \<Rightarrow> string \<Rightarrow> error + pyval" where
  "getitem_key (PDict kvs) k = (case map_of kvs k of None \<Rightarrow> Inl KeyError | Some v \<Rightarrow> Inr v)"
| "getitem_key PNone k = Inl TypeError"
| "getitem_key (PBool b) k = Inl TypeError"
| "getitem_key (PNum x) k = Inl TypeError"
| "getitem_key (PStr s) k = Inl TypeError"
| "getitem_key (PList xs) k = Inl TypeError"

text \<open>\<open>x[0]\<close>. A decoded \<open>dict\<close> has no key \<open>0\<close>.\<close>

fun getitem_0 :: "pyval \<Rightarrow> error + pyval" where
  "getitem_0 (PList xs) = (case xs of [] \<Rightarrow> Inl IndexError | x # _ \<Rightarrow> Inr x)"
| "getitem_0 (PStr s) = (case s of [] \<Rightarrow> Inl IndexError | c # _ \<Rightarrow> Inr (PStr [c]))"
| "getitem_0 (PDict kvs) = Inl KeyError"
| "getitem_0 PNone = Inl TypeError"
| "getitem_0 (PBool b) = Inl TypeError"
| "getitem_0 (PNum x) = Inl TypeError"

subsection \<open>Standard output and the session\<close>

text \<open>
  What the script writes: \<open>Print s\<close> is \<open>print(s)\<close> of a fixed line, \<open>Print_chatbot v\<close>
  is \<open>print(f"Chatbot: {v}")\<close>, \<open>Print_error e\<close> is \<open>print(f"Error invoking model: {e}")\<close>
  and \<open>Prompt s\<close> is the prompt that \<open>input(s)\<close> shows.
\<close>

datatype out = Print string | Print_chatbot pyval | Print_error error | Prompt string

text \<open>
  The session: what was written, and the \<open>inputText\<close> of every call of
  \<open>client.invoke_model\<close> so far.
\<close>

record session =
  stdout :: "out list"
  requests :: "string list"

text \<open>
  The Bedrock client with the decoding of its answer, a collaborator: for the number of
  the call and the \<open>inputText\<close>, either the exception (of class \<open>Exception\<close>) raised inside
  the \<open>try\<close> block or the decoded JSON.
\<close>

type_synonym backend = "nat \<Rightarrow> string \<Rightarrow> error + pyval"

text \<open>
  \<^verbatim>\<open>
  def invoke_model(prompt_text):
      try:
          response = client.invoke_model(modelId=..., body=json.dumps({'inputText': prompt_text}))
          result = json.loads(response['body'].read().decode('utf-8'))
          return result
      except Exception as e:
          print(f"Error invoking model: {e}")
          return None
  \<close>
\<close>

definition invoke_model :: "backend \<Rightarrow> string \<Rightarrow> session \<Rightarrow> pyval \<times> session" where
  "invoke_model client prompt_text st =
     (let st' = st\<lparr>requests := requests st @ [prompt_text]\<rparr> in
      case client (length (requests st)) prompt_text of
        Inr result \<Rightarrow> (result, st')
      | Inl e \<Rightarrow> (PNone, st'\<lparr>stdout := stdout st' @ [Print_error e]\<rparr>))"

text \<open>
  The answer to one line, the same in both notebooks:
  \<^verbatim>\<open>
  if result:
      if 'results' in result and result['results']:
          generated_text = result['results'][0]['outputText']
          print(f"Chatbot: {generated_text}")
      else:
          print("Chatbot: Sorry, I couldn't generate a response.")
  else:
      print("Chatbot: Sorry, there was an issue processing your request.")
  \<close>
  The result is the line written, or the exception that leaves the loop.
\<close>

definition and_then :: "error + 'a \<Rightarrow> ('a \<Rightarrow> error + 'b) \<Rightarrow> error + 'b" where
  "and_then r f = (case r of Inl e \<Rightarrow> Inl e | Inr x \<Rightarrow> f x)"

definition respond :: "pyval \<Rightarrow> error + out" where
  "respond result =
     (if truthy result then
        and_then (py_in ''results'' result) (\<lambda>has_results.
        and_then (if has_results then getitem_key result ''results'' else Inr PNone) (\<lambda>results.
          if has_results \<and> truthy results then
            and_then (getitem_key result ''results'') (\<lambda>rs.
            and_then (getitem_0 rs) (\<lambda>first.
            and_then (getitem_key first ''outputText'') (\<lambda>generated_text.
              Inr (Print_chatbot generated_text))))
          else Inr (Print ''Chatbot: Sorry, I couldn't generate a response.'')))
      else Inr (Print ''Chatbot: Sorry, there was an issue processing your request.''))"

text \<open>
  The loop of \<open>chatbot()\<close>. \<open>input\<close> takes the next line of standard input and raises
  \<open>EOFError\<close> when there is none. \<open>build\<close> makes the prompt from the line: the two
  notebooks differ in nothing else.
\<close>

datatype exit = Ended | Raised error

fun chat_loop :: "(string \<Rightarrow> string) \<Rightarrow> backend \<Rightarrow> string list \<Rightarrow> session \<Rightarrow> exit \<times> session" where
  "chat_loop build client [] st = (Raised EOFError, st\<lparr>stdout := stdout st @ [Prompt ''You: '']\<rparr>)"
| "chat_loop build client (user_input # rest) st =
     (let st1 = st\<lparr>stdout := stdout st @ [Prompt ''You: '']\<rparr> in
      if lower user_input = ''exit''
      then (Ended, st1\<lparr>stdout := stdout st1 @ [Print ''Chatbot session ended.'']\<rparr>)
      else
        (let (result, st2) = invoke_model client (build user_input) st1 in
         case respond result of
           Inl e \<Rightarrow> (Raised e, st2)
         | Inr line \<Rightarrow> chat_loop build client rest (st2\<lparr>stdout := stdout st2 @ [line]\<rparr>)))"

definition session0 :: session where
  "session0 = \<lparr>stdout = [Print ''Chatbot is now running. Type 'exit' to end the chat.''], requests = []\<rparr>"

text \<open>\<open>chatbot()\<close> of the Hybrid RAG notebook: the prompt is \<open>combined_input\<close>.\<close>

definition chatbot :: "backend \<Rightarrow> string list \<Rightarrow> exit \<times> session" where
  "chatbot client lines = chat_loop combined_input client lines session0"

text \<open>\<open>chatbot()\<close> of the AWS Generative Chatbot notebook: the prompt is the line itself.\<close>

definition aws_chatbot :: "backend \<Rightarrow> string list \<Rightarrow> exit \<times> session" where
  "aws_chatbot client lines = chat_loop (\<lambda>user_input. user_input) client lines session0"

section \<open>Reference notions of the specification\<close>

text \<open>
  The specification speaks of the tags of a document meeting the tokens of the
  lower-cased query. With the notebook's own tokens (\<open>preprocess_text\<close>) that selection is:
\<close>

definition tags_intersect_tokens :: "string \<Rightarrow> doc_data \<Rightarrow> bool" where
  "tags_intersect_tokens query d = list_ex (\<lambda>tag. tag \<in> set (preprocess_text query)) (metadata d)"

definition keyword_spec :: "string \<Rightarrow> database \<Rightarrow> string list" where
  "keyword_spec query db = map (doc_text \<circ> snd) (filter (tags_intersect_tokens query \<circ> snd) db)"

text \<open>
  The specification checks the assembled context by splitting it at the separator. The
  notebooks never split; the reference is Python's \<open>s.split(sep)\<close>: \<open>ValueError\<close> on an
  empty separator, else a cut at every occurrence of \<open>sep\<close> found from the left. The
  accumulator holds the current piece, reversed.
\<close>

fun split_at :: "string \<Rightarrow> string \<Rightarrow> string \<Rightarrow> string list" where
  "split_at sep acc [] = [rev acc]"
| "split_at sep acc (c # cs) =
     (if sep \<noteq> [] \<and> starts_with (c # cs) sep
      then rev acc # split_at sep [] (drop (length sep - 1) cs)
      else split_at sep (c # acc) cs)"

definition split :: "string \<Rightarrow> string \<Rightarrow> error + string list" where
  "split sep s = (if sep = [] then Inl ValueError else Inr (split_at sep [] s))"

text \<open>
  \<open>sep_free sep x\<close>: in \<open>x\<close> followed by \<open>sep\<close>, the separator starts at no position of
  \<open>x\<close>. For a separator of one character this says that \<open>x\<close> does not contain it.
\<close>

definition sep_free :: "string \<Rightarrow> string \<Rightarrow> bool" where
  "sep_free sep x = (\<not> list_ex (\<lambda>i. starts_with (drop i (x @ sep)) sep) [0..<length x])"

section \<open>Collaborators for closed instances\<close>

text \<open>A generator whose answer never mentions the marker, and scores that are all zero.\<close>

definition silent_generate :: generator where
  "silent_generate request = Inr ''No assessment available.''"

definition zero_similarity :: "string \<Rightarrow> string list \<Rightarrow> nat \<Rightarrow> real" where
  "zero_similarity query documents i = 0"

text \<open>A run of \<open>np.argsort\<close> that returned \<open>idx\<close>.\<close>

definition argsort_returning :: "nat list \<Rightarrow> 'a list \<Rightarrow> nat list" where
  "argsort_returning idx similarities = idx"

text \<open>A backend that is unreachable, and backends that answer with a fixed JSON value.\<close>

definition unreachable_client :: backend where
  "unreachable_client n prompt_text = Inl (BackendError ''Could not connect to the endpoint URL'')"

definition constant_client :: "pyval \<Rightarrow> backend" where
  "constant_client v n prompt_text = Inr v"

text \<open>An answer of the shape the Titan model gives.\<close>

definition titan_answer :: pyval where
  "titan_answer = PDict [(''inputTextTokenCount'', PNum 7),
     (''results'', PList [PDict [(''outputText'', PStr ''The Empire State Building is located in New York City.'')]])]"

section \<open>Properties\<close>

subsection \<open>Strings\<close>

lemma starts_with_prefix: "starts_with s t \<longleftrightarrow> prefix t s"
  by (induction s t rule: starts_with.induct) auto

lemma contains_iff: "contains s t \<longleftrightarrow> (\<exists>ps ss. s = ps @ t @ ss)"
proof (induction s)
  case Nil
  then show ?case by auto
next
  case (Cons c s)
  show ?case
  proof
    assume "contains (c # s) t"
    then consider "prefix t (c # s)" | "contains s t"
      by (auto simp: starts_with_prefix)
    then show "\<exists>ps ss. c # s = ps @ t @ ss"
    proof cases
      case 1
      then obtain ss where "c # s = t @ ss" by (auto simp: prefix_def)
      then have "c # s = [] @ t @ ss" by simp
      then show ?thesis by blast
    next
      case 2
      with Cons.IH obtain ps ss where "s = ps @ t @ ss" by blast
      then have "c # s = (c # ps) @ t @ ss" by simp
      then show ?thesis by blast
    qed
  next
    assume "\<exists>ps ss. c # s = ps @ t @ ss"
    then obtain ps ss where eq: "c # s = ps @ t @ ss" by blast
    show "contains (c # s) t"
    proof (cases ps)
      case Nil
      with eq have "prefix t (c # s)" by (simp add: prefix_def)
      then show ?thesis by (simp add: starts_with_prefix)
    next
      case (Cons p ps')
      with eq have "s = ps' @ t @ ss" by simp
      with Cons.IH have "contains s t" by blast
      then show ?thesis by simp
    qed
  qed
qed

subsection \<open>Similarity ranking\<close>

lemma is_argsort_exists: "\<exists>idx. is_argsort v idx"
proof
  show "is_argsort v (sort_key (\<lambda>i. v ! i) [0..<length v])"
    by (auto simp: is_argsort_def)
qed





subsection \<open>Keyword retrieval\<close>

lemma retrieve_loop_filter:
  "retrieve_loop query db acc = acc @ map (doc_text \<circ> snd) (filter (tag_matches query \<circ> snd) db)"
  by (induction query db acc rule: retrieve_loop.induct) auto

lemma tag_matches_iff:
  "tag_matches query d \<longleftrightarrow> (\<exists>tag \<in> set (metadata d). \<exists>ps ss. lower query = ps @ tag @ ss)"
  by (simp add: tag_matches_def list_ex_iff contains_iff)

text \<open>
  C2, as the code has it. Keyword retrieval returns the texts of exactly those documents
  that have a tag occurring as a substring of the lower-cased query (the tags themselves
  are not lower-cased and the query is not cut into tokens), in insertion order.
\<close>

theorem retrieve_documents_substring_filter:
  "retrieve_documents query db =
     map (doc_text \<circ> snd)
       (filter (\<lambda>(doc_id, d). \<exists>tag \<in> set (metadata d). \<exists>ps ss. lower query = ps @ tag @ ss) db)"
proof -
  have "filter (tag_matches query \<circ> snd) db =
        filter (\<lambda>(doc_id, d). \<exists>tag \<in> set (metadata d). \<exists>ps ss. lower query = ps @ tag @ ss) db"
    by (rule filter_cong) (simp_all add: tag_matches_iff split_beta)
  then show ?thesis
    by (simp only: retrieve_documents_def retrieve_loop_filter append_Nil)
qed

text \<open>
  The notebook's own query and database: the code returns documents 1, 2 and 4, the
  selection by tokens only document 2. Document 1 is returned although neither of its
  tags, \<open>liquidity risk\<close> and \<open>debt\<close>, is a token of the query.
\<close>

theorem keyword_tokens_counterexample:
  "retrieve_documents user_query database \<noteq> keyword_spec user_query database
   \<and> doc_text (snd (hd database)) \<in> set (retrieve_documents user_query database)
   \<and> \<not> tags_intersect_tokens user_query (snd (hd database))"
  by code_simp

subsection \<open>The corrective check\<close>

text \<open>
  C3. When the marker \<open>liquidity risk\<close> is absent from the first generation result,
  \<open>corrective_rag\<close> sends exactly one more request to the generator, whose prompt is the
  joined first two documents of a re-retrieval with the query \<open>liquidity risk\<close>, and
  returns whatever that request yields, without a further check. When the marker is
  present it returns the first result and sends nothing.
\<close>

theorem corrective_rag_single_retry:
  "(\<not> contains generated_text ''liquidity risk'' \<longrightarrow>
      corrective_rag generate generated_text db calls =
        (generate \<lparr>prompt = join '' '' (take 2 (retrieve_documents ''liquidity risk'' db)),
                   attention_mask = False\<rparr>,
         calls @ [\<lparr>prompt = join '' '' (take 2 (retrieve_documents ''liquidity risk'' db)),
                   attention_mask = False\<rparr>])
      \<and> length (snd (corrective_rag generate generated_text db calls)) = length calls + 1)
   \<and> (contains generated_text ''liquidity risk'' \<longrightarrow>
      corrective_rag generate generated_text db calls = (Inr generated_text, calls))"
  by (simp add: corrective_rag_def Let_def)

theorem corrective_rag_single_retry_witness:
  "\<not> contains ''Company X is doing fine.'' ''liquidity risk''
   \<and> corrective_rag silent_generate ''Company X is doing fine.'' database [] =
       (Inr ''No assessment available.'',
        [\<lparr>prompt = ''Company X has significant liquidity risk due to its high debt ratio. Company X maintains a solid cash reserve, which mitigates some of the liquidity concerns.'',
          attention_mask = False\<rparr>])
   \<and> \<not> contains ''No assessment available.'' ''liquidity risk''
   \<and> contains ''The liquidity risk is low.'' ''liquidity risk''
   \<and> corrective_rag silent_generate ''The liquidity risk is low.'' database [] =
       (Inr ''The liquidity risk is low.'', [])"
proof -
  have absent: "\<not> contains ''Company X is doing fine.'' ''liquidity risk''"
    by simp
  have present: "contains ''The liquidity risk is low.'' ''liquidity risk''"
    by simp
  have ctx: "join '' '' (take 2 (retrieve_documents ''liquidity risk'' database)) =
      ''Company X has significant liquidity risk due to its high debt ratio. Company X maintains a solid cash reserve, which mitigates some of the liquidity concerns.''"
    by code_simp
  have silent: "\<not> contains ''No assessment available.'' ''liquidity risk''"
    by simp
  from absent
    corrective_rag_single_retry [of "''Company X is doing fine.''" silent_generate database "[]"]
  have one: "corrective_rag silent_generate ''Company X is doing fine.'' database [] =
       (Inr ''No assessment available.'',
        [\<lparr>prompt = ''Company X has significant liquidity risk due to its high debt ratio. Company X maintains a solid cash reserve, which mitigates some of the liquidity concerns.'',
          attention_mask = False\<rparr>])"
    by (simp only: ctx silent_generate_def append_Nil simp_thms)
  from present
    corrective_rag_single_retry [of "''The liquidity risk is low.''" silent_generate database "[]"]
  have zero: "corrective_rag silent_generate ''The liquidity risk is low.'' database [] =
       (Inr ''The liquidity risk is low.'', [])"
    by (simp only: simp_thms)
  from absent one silent present zero show ?thesis by (simp only: simp_thms)
qed

text \<open>
  C9. The acceptance test is the exact, case-sensitive substring test: the request log is
  unchanged precisely when the generated text has the form \<open>ps @ "liquidity risk" @ ss\<close>,
  and then the text is returned as it is; otherwise the log grows by one request. A text
  with the marker in another letter case only (\<open>Liquidity Risk\<close>, whose lower-casing does
  contain the marker) is retried.
\<close>

theorem corrective_check_case_sensitive:
  "(snd (corrective_rag generate generated_text db calls) = calls
      \<longleftrightarrow> (\<exists>ps ss. generated_text = ps @ ''liquidity risk'' @ ss))
   \<and> (fst (corrective_rag generate generated_text db calls) = Inr generated_text
        \<and> snd (corrective_rag generate generated_text db calls) = calls
      \<or> length (snd (corrective_rag generate generated_text db calls)) = length calls + 1)
   \<and> corrective_rag generate (ps @ ''liquidity risk'' @ ss) db calls
       = (Inr (ps @ ''liquidity risk'' @ ss), calls)
   \<and> contains (lower ''Liquidity Risk is moderate.'') ''liquidity risk''
   \<and> length (snd (corrective_rag generate ''Liquidity Risk is moderate.'' db calls)) = length calls + 1"
proof -
  have a: "snd (corrective_rag generate generated_text db calls) = calls
      \<longleftrightarrow> (\<exists>ps ss. generated_text = ps @ ''liquidity risk'' @ ss)"
    unfolding contains_iff [symmetric] by (simp add: corrective_rag_def Let_def)
  have b: "fst (corrective_rag generate generated_text db calls) = Inr generated_text
        \<and> snd (corrective_rag generate generated_text db calls) = calls
      \<or> length (snd (corrective_rag generate generated_text db calls)) = length calls + 1"
    by (simp add: corrective_rag_def Let_def)
  have "contains (ps @ ''liquidity risk'' @ ss) ''liquidity risk''"
    unfolding contains_iff by blast
  then have c: "corrective_rag generate (ps @ ''liquidity risk'' @ ss) db calls
       = (Inr (ps @ ''liquidity risk'' @ ss), calls)"
    by (simp add: corrective_rag_def)
  have d: "contains (lower ''Liquidity Risk is moderate.'') ''liquidity risk''"
    by code_simp
  have "\<not> contains ''Liquidity Risk is moderate.'' ''liquidity risk''"
    by simp
  then have e: "length (snd (corrective_rag generate ''Liquidity Risk is moderate.'' db calls)) = length calls + 1"
    by (simp add: corrective_rag_def Let_def)
  from a b c d e show ?thesis by (simp only: simp_thms)
qed

subsection \<open>The empty document set\<close>

text \<open>
  C4, as the code has it. For an empty database and any query, retrieval returns the empty
  list without error and joining its first two elements gives the empty string. The
  script then stops at the TF-IDF fit, which raises \<open>ValueError\<close> on the empty
  vocabulary: no context is assembled and no request reaches the generator. The same
  holds for any database on which retrieval finds nothing. The corrective step has no
  fit; when it runs on an empty database it does send one request with the empty prompt.
\<close>

theorem empty_document_set:
  "retrieve_documents query [] = []
   \<and> join sep (take 2 (retrieve_documents query [])) = []
   \<and> pipeline argsort analyzer similarity generate query [] = (Inl ValueError, [])
   \<and> (retrieve_documents query db = [] \<longrightarrow>
        pipeline argsort analyzer similarity generate query db = (Inl ValueError, []))
   \<and> (\<not> contains generated_text ''liquidity risk'' \<longrightarrow>
        corrective_rag generate generated_text [] calls =
          (generate \<lparr>prompt = [], attention_mask = False\<rparr>,
           calls @ [\<lparr>prompt = [], attention_mask = False\<rparr>]))"
proof -
  have none: "retrieve_documents query [] = []" for query
    by (simp add: retrieve_documents_def)
  have stop: "pipeline argsort analyzer similarity generate query db = (Inl ValueError, [])"
    if "retrieve_documents query db = []" for db
    using that by (simp add: pipeline_def fit_transform_def)
  have retry: "\<not> contains generated_text ''liquidity risk'' \<longrightarrow>
        corrective_rag generate generated_text [] calls =
          (generate \<lparr>prompt = [], attention_mask = False\<rparr>,
           calls @ [\<lparr>prompt = [], attention_mask = False\<rparr>])"
    by (simp add: corrective_rag_def none Let_def)
  from none [of query] stop [OF none] stop [of db] retry show ?thesis
    by simp
qed

theorem empty_document_set_witness:
  "\<not> contains ''Company X is doing fine.'' ''liquidity risk''
   \<and> corrective_rag silent_generate ''Company X is doing fine.'' [] [] =
       (Inr ''No assessment available.'', [\<lparr>prompt = [], attention_mask = False\<rparr>])
   \<and> pipeline (argsort_returning []) preprocess_text zero_similarity silent_generate user_query [] = (Inl ValueError, [])
   \<and> retrieve_documents ''Is Company X profitable?'' database = []
   \<and> pipeline (argsort_returning []) preprocess_text zero_similarity silent_generate ''Is Company X profitable?'' database
       = (Inl ValueError, [])"
proof -
  have absent: "\<not> contains ''Company X is doing fine.'' ''liquidity risk''"
    by simp
  have unmatched: "retrieve_documents ''Is Company X profitable?'' database = []"
    by code_simp
  note R = empty_document_set [of user_query "'' ''" "argsort_returning []" preprocess_text
      zero_similarity silent_generate database "''Company X is doing fine.''" "[]"]
  note R' = empty_document_set [of "''Is Company X profitable?''" "'' ''" "argsort_returning []"
      preprocess_text zero_similarity silent_generate database "''Company X is doing fine.''" "[]"]
  have a: "pipeline (argsort_returning []) preprocess_text zero_similarity silent_generate user_query [] = (Inl ValueError, [])"
    by (rule R [THEN conjunct2, THEN conjunct2, THEN conjunct1])
  have b: "pipeline (argsort_returning []) preprocess_text zero_similarity silent_generate ''Is Company X profitable?'' database
       = (Inl ValueError, [])"
    by (rule R' [THEN conjunct2, THEN conjunct2, THEN conjunct2, THEN conjunct1, THEN mp]) (rule unmatched)
  have "corrective_rag silent_generate ''Company X is doing fine.'' [] [] =
          (silent_generate \<lparr>prompt = [], attention_mask = False\<rparr>,
           [] @ [\<lparr>prompt = [], attention_mask = False\<rparr>])"
    by (rule R [THEN conjunct2, THEN conjunct2, THEN conjunct2, THEN conjunct2, THEN mp]) (rule absent)
  then have c: "corrective_rag silent_generate ''Company X is doing fine.'' [] [] =
       (Inr ''No assessment available.'', [\<lparr>prompt = [], attention_mask = False\<rparr>])"
    by (simp only: silent_generate_def append_Nil)
  from absent c a unmatched b show ?thesis
    by - (intro conjI, assumption+)
qed

text \<open>
  The notebook's query on the empty database: the script ends in \<open>ValueError\<close> and the
  generator was never invoked.
\<close>

theorem empty_document_set_counterexample:
  "fst (pipeline (argsort_returning []) preprocess_text zero_similarity silent_generate user_query []) = Inl ValueError
   \<and> snd (pipeline (argsort_returning []) preprocess_text zero_similarity silent_generate user_query []) = []"
  by (simp add: retrieve_documents_def pipeline_def fit_transform_def)

subsection \<open>Context assembly\<close>

lemma starts_with_append:
  "length t \<le> length s \<Longrightarrow> starts_with (s @ r) t = starts_with s t"
  by (induction s t rule: starts_with.induct) auto

lemma starts_with_self_append: "starts_with (t @ r) t"
  by (simp add: starts_with_prefix)

lemma sep_free_Nil: "sep_free sep []"
  by (simp add: sep_free_def)

lemma sep_free_Cons:
  "sep_free sep (a # x) \<longleftrightarrow> \<not> starts_with (a # x @ sep) sep \<and> sep_free sep x"
proof -
  define P where "P i = starts_with (drop i ((a # x) @ sep)) sep" for i
  have P0: "P 0 = starts_with (a # x @ sep) sep"
    by (simp add: P_def)
  have PS: "P (Suc j) = starts_with (drop j (x @ sep)) sep" for j
    by (simp add: P_def del: drop_append)
  have whole: "sep_free sep (a # x) \<longleftrightarrow> \<not> (\<exists>i<Suc (length x). P i)"
    unfolding sep_free_def list_ex_iff P_def by (simp add: Bex_def del: drop_append append_Cons upt_Suc)
  have tail: "sep_free sep x \<longleftrightarrow> \<not> (\<exists>j<length x. P (Suc j))"
    unfolding sep_free_def list_ex_iff PS by (simp add: Bex_def del: drop_append)
  have "(\<exists>i<Suc (length x). P i) \<longleftrightarrow> P 0 \<or> (\<exists>j<length x. P (Suc j))"
    by (auto simp: less_Suc_eq_0_disj)
  with whole tail P0 show ?thesis by simp
qed

lemma split_at_piece:
  "sep \<noteq> [] \<Longrightarrow> sep_free sep x \<Longrightarrow>
     split_at sep acc (x @ sep @ rest) = (rev acc @ x) # split_at sep [] rest"
proof (induction x arbitrary: acc)
  case Nil
  then obtain c cs where sep: "sep = c # cs" by (cases sep) auto
  have "starts_with (sep @ rest) sep" by (rule starts_with_self_append)
  then show ?case using sep by simp
next
  case (Cons a x)
  then have no: "\<not> starts_with (a # x @ sep) sep" and free: "sep_free sep x"
    by (simp_all add: sep_free_Cons)
  have "starts_with ((a # x @ sep) @ rest) sep = starts_with (a # x @ sep) sep"
    by (rule starts_with_append) simp
  with no have "\<not> starts_with (a # x @ sep @ rest) sep" by simp
  then have "split_at sep acc ((a # x) @ sep @ rest) = split_at sep (a # acc) (x @ sep @ rest)"
    by simp
  also have "\<dots> = (rev (a # acc) @ x) # split_at sep [] rest"
    using Cons.prems(1) free by (rule Cons.IH)
  finally show ?case by simp
qed

lemma split_at_last:
  "sep \<noteq> [] \<Longrightarrow> sep_free sep x \<Longrightarrow> split_at sep acc x = [rev acc @ x]"
proof (induction x arbitrary: acc)
  case Nil
  then show ?case by simp
next
  case (Cons a x)
  then have no: "\<not> starts_with (a # x @ sep) sep" and free: "sep_free sep x"
    by (simp_all add: sep_free_Cons)
  have "\<not> starts_with (a # x) sep"
  proof
    assume "starts_with (a # x) sep"
    then have "prefix sep ((a # x) @ sep)" by (simp add: starts_with_prefix del: append_Cons)
    with no show False by (simp add: starts_with_prefix)
  qed
  then have "split_at sep acc (a # x) = split_at sep (a # acc) x" by simp
  also have "\<dots> = [rev (a # acc) @ x]"
    using Cons.prems(1) free by (rule Cons.IH)
  finally show ?case by simp
qed

lemma split_at_join:
  "sep \<noteq> [] \<Longrightarrow> docs \<noteq> [] \<Longrightarrow> \<forall>x \<in> set docs. sep_free sep x \<Longrightarrow>
     split_at sep [] (join sep docs) = docs"
proof (induction sep docs rule: join.induct)
  case (1 sep)
  then show ?case by simp
next
  case (2 sep x)
  then show ?case by (simp add: split_at_last)
next
  case (3 sep x y ys)
  then have "split_at sep [] (x @ sep @ join sep (y # ys)) = (rev [] @ x) # split_at sep [] (join sep (y # ys))"
    by (intro split_at_piece) simp_all
  with 3 show ?case by simp
qed

lemma join_append:
  "xs \<noteq> [] \<Longrightarrow> ys \<noteq> [] \<Longrightarrow> join sep (xs @ ys) = join sep xs @ sep @ join sep ys"
proof (induction sep xs rule: join.induct)
  case (1 sep)
  then show ?case by simp
next
  case (2 sep x)
  then show ?case by (cases ys) simp_all
next
  case (3 sep x y ys)
  then show ?case by simp
qed

lemma sep_free_char: "sep_free [c] x \<longleftrightarrow> c \<notin> set x"
  by (induction x) (auto simp: sep_free_Nil sep_free_Cons)

text \<open>
  C5, as the code has it. Joining is compositional: the join of two non-empty sequences is
  the two joins with one separator between them, so the assembled context is the texts in
  the given order with a separator between neighbours. Splitting the assembled string at
  the separator gives the texts back when the separator is not empty, the sequence is not
  empty and the separator starts nowhere inside a text followed by the separator; for the
  one-character separators of the notebooks (a blank, a newline): when no text contains
  that character.
\<close>

theorem join_split_round_trip:
  "(xs \<noteq> [] \<and> ys \<noteq> [] \<longrightarrow> join sep (xs @ ys) = join sep xs @ sep @ join sep ys)
   \<and> (sep \<noteq> [] \<and> docs \<noteq> [] \<and> (\<forall>x \<in> set docs. sep_free sep x) \<longrightarrow>
        split sep (join sep docs) = Inr docs)
   \<and> (docs \<noteq> [] \<and> (\<forall>x \<in> set docs. c \<notin> set x) \<longrightarrow> split [c] (join [c] docs) = Inr docs)"
proof -
  have a: "xs \<noteq> [] \<and> ys \<noteq> [] \<longrightarrow> join sep (xs @ ys) = join sep xs @ sep @ join sep ys"
    by (simp add: join_append)
  have b: "sep \<noteq> [] \<and> docs \<noteq> [] \<and> (\<forall>x \<in> set docs. sep_free sep x) \<longrightarrow>
        split sep (join sep docs) = Inr docs" for sep
    by (simp add: split_def split_at_join)
  have c: "docs \<noteq> [] \<and> (\<forall>x \<in> set docs. c \<notin> set x) \<longrightarrow> split [c] (join [c] docs) = Inr docs"
    using b [of "[c]"] by (simp add: sep_free_char)
  from a b [of sep] c show ?thesis by blast
qed

text \<open>
  Texts that contain the separator come back in more pieces, the empty sequence comes
  back as one empty text, and an empty separator cannot be split at.
\<close>

theorem join_split_counterexample:
  "split '' '' (join '' '' [''solid cash reserve'', ''high debt ratio''])
     = Inr [''solid'', ''cash'', ''reserve'', ''high'', ''debt'', ''ratio'']
   \<and> split '' '' (join '' '' []) = Inr ['''']
   \<and> split '''' (join '''' [''a'', ''b'']) = Inl ValueError"
  by code_simp


theorem join_split_round_trip_witness:
  "[''a''] \<noteq> [] \<and> [''b'', ''c''] \<noteq> []
   \<and> join '', '' ([''a''] @ [''b'', ''c'']) = join '', '' [''a''] @ '', '' @ join '', '' [''b'', ''c'']
   \<and> '', '' \<noteq> [] \<and> list_all (sep_free '', '') [''a'', ''b,'', ''c d'']
   \<and> split '', '' (join '', '' [''a'', ''b,'', ''c d'']) = Inr [''a'', ''b,'', ''c d'']
   \<and> hybrid_retrieve_documents ''Best Pizza in New York'' \<noteq> []
   \<and> list_all (\<lambda>x. CHR ''\<newline>'' \<notin> set x) (hybrid_retrieve_documents ''Best Pizza in New York'')
   \<and> split ''\<newline>'' (hybrid_context ''Best Pizza in New York'')
       = Inr (hybrid_retrieve_documents ''Best Pizza in New York'')"
proof -
  have h1: "[''a''] \<noteq> [] \<and> [''b'', ''c''] \<noteq> []"
    by simp
  have h2: "'', '' \<noteq> [] \<and> [''a'', ''b,'', ''c d''] \<noteq> [] \<and> (\<forall>x \<in> set [''a'', ''b,'', ''c d'']. sep_free '', '' x)"
    by code_simp
  have h3: "hybrid_retrieve_documents ''Best Pizza in New York'' \<noteq> []
     \<and> (\<forall>x \<in> set (hybrid_retrieve_documents ''Best Pizza in New York''). CHR ''\<newline>'' \<notin> set x)"
    by (simp add: hybrid_retrieve_documents_def)
  note R1 = join_split_round_trip [of "[''a'']" "[''b'', ''c'']" "'', ''" "[''a'', ''b,'', ''c d'']" "CHR ''\<newline>''"]
  note R2 = join_split_round_trip [of "[''a'']" "[''b'', ''c'']" "'', ''"
      "hybrid_retrieve_documents ''Best Pizza in New York''" "CHR ''\<newline>''"]
  have a: "join '', '' ([''a''] @ [''b'', ''c'']) = join '', '' [''a''] @ '', '' @ join '', '' [''b'', ''c'']"
    by (rule R1 [THEN conjunct1, THEN mp]) (rule h1)
  have b: "split '', '' (join '', '' [''a'', ''b,'', ''c d'']) = Inr [''a'', ''b,'', ''c d'']"
    by (rule R1 [THEN conjunct2, THEN conjunct1, THEN mp]) (rule h2)
  have c: "split ''\<newline>'' (join ''\<newline>'' (hybrid_retrieve_documents ''Best Pizza in New York''))
       = Inr (hybrid_retrieve_documents ''Best Pizza in New York'')"
    by (rule R2 [THEN conjunct2, THEN conjunct2, THEN mp]) (rule h3)
  from h1 h2 h3 a b c show ?thesis
    unfolding hybrid_context_def list_all_iff by - (elim conjE, intro conjI, assumption+)
qed

subsection \<open>The interactive loop\<close>

lemma invoke_model_requests:
  "requests (snd (invoke_model client prompt_text st)) = requests st @ [prompt_text]"
  by (cases "client (length (requests st)) prompt_text") (simp_all add: invoke_model_def Let_def)


lemma invoke_model_returns:
  "client (length (requests st)) prompt_text = Inr result \<Longrightarrow>
     invoke_model client prompt_text st = (result, st\<lparr>requests := requests st @ [prompt_text]\<rparr>)"
  by (simp add: invoke_model_def Let_def)

lemma respond_falsy:
  "\<not> truthy result \<Longrightarrow>
     respond result = Inr (Print ''Chatbot: Sorry, there was an issue processing your request.'')"
  by (simp add: respond_def)

lemma respond_no_results:
  "truthy result \<Longrightarrow> py_in ''results'' result = Inr False \<Longrightarrow>
     respond result = Inr (Print ''Chatbot: Sorry, I couldn't generate a response.'')"
  by (simp add: respond_def and_then_def)

lemma respond_falsy_results:
  assumes look: "map_of kvs ''results'' = Some v" and falsy: "\<not> truthy v"
  shows "respond (PDict kvs) = Inr (Print ''Chatbot: Sorry, I couldn't generate a response.'')"
proof -
  from look have "(''results'', v) \<in> set kvs"
    by (rule map_of_SomeD)
  then have mem: "''results'' \<in> fst ` set kvs"
    by (rule image_eqI [rotated]) simp
  from look have ne: "kvs \<noteq> []"
    by (cases kvs) simp_all
  have t: "truthy (PDict kvs)" using ne by simp
  have i: "py_in ''results'' (PDict kvs) = Inr True" using mem by simp
  have g: "getitem_key (PDict kvs) ''results'' = Inr v" using look by simp
  show ?thesis
    unfolding respond_def by (simp only: t i g falsy and_then_def if_True if_False sum.case simp_thms)
qed

lemma chat_loop_sentinel:
  "lower user_input = ''exit'' \<Longrightarrow>
     chat_loop build client (user_input # rest) st =
       (Ended, st\<lparr>stdout := stdout st @ [Prompt ''You: '', Print ''Chatbot session ended.'']\<rparr>)"
  by (simp add: Let_def)

lemma chat_loop_line:
  "lower user_input \<noteq> ''exit'' \<Longrightarrow>
     chat_loop build client (user_input # rest) st =
       (case invoke_model client (build user_input) (st\<lparr>stdout := stdout st @ [Prompt ''You: '']\<rparr>) of
          (result, st2) \<Rightarrow>
            (case respond result of
               Inl e \<Rightarrow> (Raised e, st2)
             | Inr line \<Rightarrow> chat_loop build client rest (st2\<lparr>stdout := stdout st2 @ [line]\<rparr>)))"
  by (simp add: Let_def)


lemma chat_loop_step:
  assumes "lower user_input \<noteq> ''exit''"
  obtains st' where "requests st' = requests st @ [build user_input]"
    and "chat_loop build client (user_input # rest) st = chat_loop build client rest st'
         \<or> (\<exists>e. chat_loop build client (user_input # rest) st = (Raised e, st'))"
proof -
  let ?st1 = "st\<lparr>stdout := stdout st @ [Prompt ''You: '']\<rparr>"
  obtain result st2 where inv: "invoke_model client (build user_input) ?st1 = (result, st2)"
    by (cases "invoke_model client (build user_input) ?st1")
  have "requests (snd (invoke_model client (build user_input) ?st1)) = requests ?st1 @ [build user_input]"
    by (rule invoke_model_requests)
  then have req2: "requests st2 = requests st @ [build user_input]"
    by (simp add: inv)
  show thesis
  proof (cases "respond result")
    case (Inl e)
    have "chat_loop build client (user_input # rest) st = (Raised e, st2)"
      unfolding chat_loop_line [OF assms] inv by (simp add: Inl)
    then show thesis using req2 that by blast
  next
    case (Inr line)
    have "chat_loop build client (user_input # rest) st
            = chat_loop build client rest (st2\<lparr>stdout := stdout st2 @ [line]\<rparr>)"
      unfolding chat_loop_line [OF assms] inv by (simp add: Inr)
    moreover have "requests (st2\<lparr>stdout := stdout st2 @ [line]\<rparr>) = requests st @ [build user_input]"
      using req2 by simp
    ultimately show thesis using that by blast
  qed
qed

lemma chat_loop_requests_bound:
  "prefix (requests (snd (chat_loop build client lines st)))
     (requests st @ map build (takeWhile (\<lambda>l. lower l \<noteq> ''exit'') lines))"
proof (induction lines arbitrary: st)
  case Nil
  show ?case by simp
next
  case (Cons u rest)
  show ?case
  proof (cases "lower u = ''exit''")
    case True
    show ?thesis unfolding chat_loop_sentinel [OF True] using True by simp
  next
    case False
    obtain st' where r: "requests st' = requests st @ [build u]"
      and s: "chat_loop build client (u # rest) st = chat_loop build client rest st'
         \<or> (\<exists>e. chat_loop build client (u # rest) st = (Raised e, st'))"
      using False by (rule chat_loop_step)
    from s show ?thesis
    proof
      assume eq: "chat_loop build client (u # rest) st = chat_loop build client rest st'"
      have "prefix (requests (snd (chat_loop build client rest st')))
              (requests st' @ map build (takeWhile (\<lambda>l. lower l \<noteq> ''exit'') rest))"
        by (rule Cons.IH)
      then show ?thesis unfolding eq r using False by simp
    next
      assume "\<exists>e. chat_loop build client (u # rest) st = (Raised e, st')"
      then obtain e where eq: "chat_loop build client (u # rest) st = (Raised e, st')" ..
      show ?thesis unfolding eq using False r by simp
    qed
  qed
qed

lemma chat_loop_ended:
  "fst (chat_loop build client lines st) = Ended \<Longrightarrow>
     requests (snd (chat_loop build client lines st))
       = requests st @ map build (takeWhile (\<lambda>l. lower l \<noteq> ''exit'') lines)
     \<and> (\<exists>l \<in> set lines. lower l = ''exit'')"
proof (induction lines arbitrary: st)
  case Nil
  then show ?case by simp
next
  case (Cons u rest)
  show ?case
  proof (cases "lower u = ''exit''")
    case True
    show ?thesis unfolding chat_loop_sentinel [OF True] using True by simp
  next
    case False
    obtain st' where r: "requests st' = requests st @ [build u]"
      and s: "chat_loop build client (u # rest) st = chat_loop build client rest st'
         \<or> (\<exists>e. chat_loop build client (u # rest) st = (Raised e, st'))"
      using False by (rule chat_loop_step)
    from s show ?thesis
    proof
      assume eq: "chat_loop build client (u # rest) st = chat_loop build client rest st'"
      from Cons.prems have "fst (chat_loop build client rest st') = Ended"
        unfolding eq .
      then have "requests (snd (chat_loop build client rest st'))
           = requests st' @ map build (takeWhile (\<lambda>l. lower l \<noteq> ''exit'') rest)
         \<and> (\<exists>l \<in> set rest. lower l = ''exit'')"
        by (rule Cons.IH)
      then show ?thesis unfolding eq r using False by simp
    next
      assume "\<exists>e. chat_loop build client (u # rest) st = (Raised e, st')"
      then obtain e where eq: "chat_loop build client (u # rest) st = (Raised e, st')" ..
      from Cons.prems show ?thesis unfolding eq by simp
    qed
  qed
qed

lemma lower_exit: "lower ''exit'' = ''exit''"
  by code_simp

text \<open>
  C7. A line whose lower-casing is \<open>exit\<close> ends the loop: the session is over, nothing is
  sent to the model for that line and the lines after it are not read. With \<open>exit\<close> as the
  first line both chatbots end having sent nothing. Over a whole run the prompts sent are
  a prefix of the prompts of the lines before the first such line, one per line in order,
  and all of them when the session ends by the sentinel.
\<close>

theorem sentinel_ends_session:
  "(lower user_input = ''exit'' \<longrightarrow>
      chat_loop build client (user_input # rest) st =
        (Ended, st\<lparr>stdout := stdout st @ [Prompt ''You: '', Print ''Chatbot session ended.'']\<rparr>))
   \<and> fst (chatbot client (''exit'' # rest)) = Ended
   \<and> requests (snd (chatbot client (''exit'' # rest))) = []
   \<and> fst (aws_chatbot client (''exit'' # rest)) = Ended
   \<and> requests (snd (aws_chatbot client (''exit'' # rest))) = []
   \<and> prefix (requests (snd (chat_loop build client lines st)))
        (requests st @ map build (takeWhile (\<lambda>l. lower l \<noteq> ''exit'') lines))
   \<and> (fst (chat_loop build client lines st) = Ended \<longrightarrow>
        requests (snd (chat_loop build client lines st))
          = requests st @ map build (takeWhile (\<lambda>l. lower l \<noteq> ''exit'') lines)
        \<and> (\<exists>l \<in> set lines. lower l = ''exit''))"
proof -
  have a: "lower user_input = ''exit'' \<longrightarrow>
      chat_loop build client (user_input # rest) st =
        (Ended, st\<lparr>stdout := stdout st @ [Prompt ''You: '', Print ''Chatbot session ended.'']\<rparr>)"
    by (simp add: chat_loop_sentinel)
  have b: "fst (chat_loop build' client (''exit'' # rest) session0) = Ended
      \<and> requests (snd (chat_loop build' client (''exit'' # rest) session0)) = []" for build'
    unfolding chat_loop_sentinel [OF lower_exit] by (simp add: session0_def)
  have c: "prefix (requests (snd (chat_loop build client lines st)))
        (requests st @ map build (takeWhile (\<lambda>l. lower l \<noteq> ''exit'') lines))"
    by (rule chat_loop_requests_bound)
  have d: "fst (chat_loop build client lines st) = Ended \<longrightarrow>
        requests (snd (chat_loop build client lines st))
          = requests st @ map build (takeWhile (\<lambda>l. lower l \<noteq> ''exit'') lines)
        \<and> (\<exists>l \<in> set lines. lower l = ''exit'')"
    using chat_loop_ended [of build client lines st] by blast
  from a b [of combined_input] b [of "\<lambda>user_input. user_input"] c d show ?thesis
    unfolding chatbot_def aws_chatbot_def by (simp only: simp_thms)
qed


theorem sentinel_ends_session_witness:
  "lower ''Exit'' = ''exit''
   \<and> chat_loop combined_input unreachable_client [''Exit'', ''never read''] session0 =
        (Ended, session0\<lparr>stdout := stdout session0 @ [Prompt ''You: '', Print ''Chatbot session ended.'']\<rparr>)
   \<and> fst (aws_chatbot (constant_client titan_answer)
             [''Where is the Empire State Building'', ''Exit'', ''never read'']) = Ended
   \<and> requests (snd (aws_chatbot (constant_client titan_answer)
             [''Where is the Empire State Building'', ''Exit'', ''never read'']))
        = [''Where is the Empire State Building'']"
proof -
  let ?lines = "[''Where is the Empire State Building'', ''Exit'', ''never read'']"
  let ?build = "\<lambda>user_input :: string. user_input"
  have h: "lower ''Exit'' = ''exit''"
    by code_simp
  have e: "fst (chat_loop ?build (constant_client titan_answer) ?lines session0) = Ended"
    by code_simp
  have t: "requests session0 @ map ?build (takeWhile (\<lambda>l. lower l \<noteq> ''exit'') ?lines)
       = [''Where is the Empire State Building'']"
    by code_simp
  note R1 = sentinel_ends_session [of "''Exit''" combined_input unreachable_client "[''never read'']"
      session0 ?lines]
  note R2 = sentinel_ends_session [of "''Exit''" ?build "constant_client titan_answer" "[''never read'']"
      session0 ?lines]
  have a: "chat_loop combined_input unreachable_client [''Exit'', ''never read''] session0 =
        (Ended, session0\<lparr>stdout := stdout session0 @ [Prompt ''You: '', Print ''Chatbot session ended.'']\<rparr>)"
    by (rule R1 [THEN conjunct1, THEN mp]) (rule h)
  have "requests (snd (chat_loop ?build (constant_client titan_answer) ?lines session0))
          = requests session0 @ map ?build (takeWhile (\<lambda>l. lower l \<noteq> ''exit'') ?lines)"
    by (rule R2 [THEN conjunct2, THEN conjunct2, THEN conjunct2, THEN conjunct2, THEN conjunct2,
          THEN conjunct2, THEN mp, THEN conjunct1]) (rule e)
  then have b: "requests (snd (chat_loop ?build (constant_client titan_answer) ?lines session0))
          = [''Where is the Empire State Building'']"
    by (simp only: t)
  from h a e b show ?thesis
    unfolding aws_chatbot_def by - (intro conjI, assumption+)
qed



text \<open>
  C10, as the code has it. When the call succeeds with a truthy value that does not
  contain \<open>results\<close>, in particular a non-empty \<open>dict\<close> without that key, or with a \<open>dict\<close>
  whose \<open>results\<close> value is falsy (an empty list), the answer is the line \<open>Sorry, I
  couldn't generate a response.\<close> When the value itself is falsy, as the empty \<open>dict\<close> is,
  the answer is the line about an issue with the request. In each case the loop goes on
  with the next input line.
\<close>

theorem fallback_for_missing_results:
  "(truthy result \<and> py_in ''results'' result = Inr False \<longrightarrow>
      respond result = Inr (Print ''Chatbot: Sorry, I couldn't generate a response.''))
   \<and> (kvs \<noteq> [] \<and> map_of kvs ''results'' = None \<longrightarrow>
      respond (PDict kvs) = Inr (Print ''Chatbot: Sorry, I couldn't generate a response.''))
   \<and> (map_of kvs ''results'' = Some v \<and> \<not> truthy v \<longrightarrow>
      respond (PDict kvs) = Inr (Print ''Chatbot: Sorry, I couldn't generate a response.''))
   \<and> (\<not> truthy result \<longrightarrow>
      respond result = Inr (Print ''Chatbot: Sorry, there was an issue processing your request.''))
   \<and> respond (PDict []) = Inr (Print ''Chatbot: Sorry, there was an issue processing your request.'')
   \<and> (lower user_input \<noteq> ''exit'' \<and> client (length (requests st)) (build user_input) = Inr result
        \<and> respond result = Inr line \<longrightarrow>
      chat_loop build client (user_input # rest) st =
        chat_loop build client rest
          (st\<lparr>stdout := stdout st @ [Prompt ''You: '', line],
              requests := requests st @ [build user_input]\<rparr>))"
proof -
  have a: "truthy result \<and> py_in ''results'' result = Inr False \<longrightarrow>
      respond result = Inr (Print ''Chatbot: Sorry, I couldn't generate a response.'')"
    by (simp add: respond_no_results)
  have b: "respond (PDict kvs) = Inr (Print ''Chatbot: Sorry, I couldn't generate a response.'')"
    if ne: "kvs \<noteq> []" and none: "map_of kvs ''results'' = None"
  proof -
    from none have "''results'' \<notin> fst ` set kvs"
      by (simp add: map_of_eq_None_iff)
    then have "py_in ''results'' (PDict kvs) = Inr False"
      by simp
    moreover have "truthy (PDict kvs)"
      using ne by simp
    ultimately show ?thesis
      by (rule respond_no_results [rotated])
  qed
  have c: "map_of kvs ''results'' = Some v \<and> \<not> truthy v \<longrightarrow>
      respond (PDict kvs) = Inr (Print ''Chatbot: Sorry, I couldn't generate a response.'')"
    using respond_falsy_results [of kvs v] by blast
  have d: "\<not> truthy result \<longrightarrow>
      respond result = Inr (Print ''Chatbot: Sorry, there was an issue processing your request.'')"
    by (simp add: respond_falsy)
  have e: "respond (PDict []) = Inr (Print ''Chatbot: Sorry, there was an issue processing your request.'')"
    by (rule respond_falsy) simp
  have f: "chat_loop build client (user_input # rest) st =
        chat_loop build client rest
          (st\<lparr>stdout := stdout st @ [Prompt ''You: '', line],
              requests := requests st @ [build user_input]\<rparr>)"
    if ne: "lower user_input \<noteq> ''exit''"
      and ok: "client (length (requests st)) (build user_input) = Inr result"
      and r: "respond result = Inr line"
  proof -
    let ?st1 = "st\<lparr>stdout := stdout st @ [Prompt ''You: '']\<rparr>"
    from ok have "client (length (requests ?st1)) (build user_input) = Inr result"
      by simp
    then have inv: "invoke_model client (build user_input) ?st1 =
        (result, ?st1\<lparr>requests := requests ?st1 @ [build user_input]\<rparr>)"
      by (rule invoke_model_returns)
    show ?thesis
      unfolding chat_loop_line [OF ne] inv by (cases st) (simp add: r)
  qed
  from a b c d e f show ?thesis by blast
qed

text \<open>
  The empty \<open>dict\<close> gets the request-failure line and not the other fallback. A \<open>results\<close> value that is a non-empty string instead of a list leaves
  the loop with \<open>TypeError\<close>.
\<close>

theorem fallback_for_missing_results_counterexample:
  "respond (PDict []) = Inr (Print ''Chatbot: Sorry, there was an issue processing your request.'')
   \<and> respond (PDict []) \<noteq> Inr (Print ''Chatbot: Sorry, I couldn't generate a response.'')
   \<and> stdout (snd (aws_chatbot (constant_client (PDict [])) [''hello'', ''exit''])) =
       [Print ''Chatbot is now running. Type 'exit' to end the chat.'',
        Prompt ''You: '',
        Print ''Chatbot: Sorry, there was an issue processing your request.'',
        Prompt ''You: '',
        Print ''Chatbot session ended.'']
   \<and> aws_chatbot (constant_client (PDict [(''results'', PStr ''none'')])) [''hello'', ''exit'']
       = (Raised TypeError,
          \<lparr>stdout = [Print ''Chatbot is now running. Type 'exit' to end the chat.'', Prompt ''You: ''],
           requests = [''hello'']\<rparr>)"
  by code_simp

theorem fallback_for_missing_results_witness:
  "truthy (PList [PStr ''x'']) \<and> py_in ''results'' (PList [PStr ''x'']) = Inr False
   \<and> respond (PList [PStr ''x'']) = Inr (Print ''Chatbot: Sorry, I couldn't generate a response.'')
   \<and> [(''message'', PStr ''throttled'')] \<noteq> [] \<and> map_of [(''message'', PStr ''throttled'')] ''results'' = None
   \<and> respond (PDict [(''message'', PStr ''throttled'')])
        = Inr (Print ''Chatbot: Sorry, I couldn't generate a response.'')
   \<and> map_of [(''results'', PList [])] ''results'' = Some (PList []) \<and> \<not> truthy (PList [])
   \<and> respond (PDict [(''results'', PList [])])
        = Inr (Print ''Chatbot: Sorry, I couldn't generate a response.'')
   \<and> \<not> truthy (PDict [])
   \<and> respond (PDict []) = Inr (Print ''Chatbot: Sorry, there was an issue processing your request.'')
   \<and> lower ''hello'' \<noteq> ''exit''
   \<and> constant_client (PDict [(''results'', PList [])]) (length (requests session0)) ''hello''
        = Inr (PDict [(''results'', PList [])])
   \<and> aws_chatbot (constant_client (PDict [(''results'', PList [])])) [''hello'', ''exit''] =
       (Ended,
        \<lparr>stdout = [Print ''Chatbot is now running. Type 'exit' to end the chat.'',
                   Prompt ''You: '',
                   Print ''Chatbot: Sorry, I couldn't generate a response.'',
                   Prompt ''You: '',
                   Print ''Chatbot session ended.''],
         requests = [''hello'']\<rparr>)"
proof -
  let ?couldnt = "Print ''Chatbot: Sorry, I couldn't generate a response.''"
  let ?empty_results = "PDict [(''results'', PList [])]"
  let ?build = "\<lambda>user_input :: string. user_input"
  have h1: "truthy (PList [PStr ''x'']) \<and> py_in ''results'' (PList [PStr ''x'']) = Inr False"
    by simp
  have h2: "[(''message'', PStr ''throttled'')] \<noteq> [] \<and> map_of [(''message'', PStr ''throttled'')] ''results'' = None"
    by simp
  have h3: "map_of [(''results'', PList [])] ''results'' = Some (PList []) \<and> \<not> truthy (PList [])"
    by simp
  have h4: "\<not> truthy (PDict [])"
    by simp
  have h5: "lower ''hello'' \<noteq> ''exit''"
    by code_simp
  have h6: "constant_client ?empty_results (length (requests session0)) (?build ''hello'') = Inr ?empty_results"
    by (simp add: constant_client_def)
  note R1 = fallback_for_missing_results [of "PList [PStr ''x'']" "[(''message'', PStr ''throttled'')]"
      "PList []" "''hello''" "constant_client ?empty_results" session0 ?build ?couldnt "[''exit'']"]
  note R2 = fallback_for_missing_results [of "PDict []" "[(''results'', PList [])]"
      "PList []" "''hello''" "constant_client ?empty_results" session0 ?build ?couldnt "[''exit'']"]
  note R3 = fallback_for_missing_results [of ?empty_results "[(''results'', PList [])]"
      "PList []" "''hello''" "constant_client ?empty_results" session0 ?build ?couldnt "[''exit'']"]
  have a: "respond (PList [PStr ''x'']) = Inr ?couldnt"
    by (rule R1 [THEN conjunct1, THEN mp]) (rule h1)
  have b: "respond (PDict [(''message'', PStr ''throttled'')]) = Inr ?couldnt"
    by (rule R1 [THEN conjunct2, THEN conjunct1, THEN mp]) (rule h2)
  have c: "respond ?empty_results = Inr ?couldnt"
    by (rule R2 [THEN conjunct2, THEN conjunct2, THEN conjunct1, THEN mp]) (rule h3)
  have d: "respond (PDict []) = Inr (Print ''Chatbot: Sorry, there was an issue processing your request.'')"
    by (rule R2 [THEN conjunct2, THEN conjunct2, THEN conjunct2, THEN conjunct1, THEN mp]) (rule h4)
  have e: "chat_loop ?build (constant_client ?empty_results) [''hello'', ''exit''] session0 =
        chat_loop ?build (constant_client ?empty_results) [''exit'']
          (session0\<lparr>stdout := stdout session0 @ [Prompt ''You: '', ?couldnt],
              requests := requests session0 @ [?build ''hello'']\<rparr>)"
    by (rule R3 [THEN conjunct2, THEN conjunct2, THEN conjunct2, THEN conjunct2, THEN conjunct2, THEN mp])
      (intro conjI h5 h6 c)
  have f: "chat_loop ?build (constant_client ?empty_results) [''exit'']
          (session0\<lparr>stdout := stdout session0 @ [Prompt ''You: '', ?couldnt],
              requests := requests session0 @ [?build ''hello'']\<rparr>) =
       (Ended,
        \<lparr>stdout = [Print ''Chatbot is now running. Type 'exit' to end the chat.'',
                   Prompt ''You: '', ?couldnt, Prompt ''You: '', Print ''Chatbot session ended.''],
         requests = [''hello'']\<rparr>)"
    unfolding chat_loop_sentinel [OF lower_exit] by (simp add: session0_def)
  from e f have g: "aws_chatbot (constant_client ?empty_results) [''hello'', ''exit''] =
       (Ended,
        \<lparr>stdout = [Print ''Chatbot is now running. Type 'exit' to end the chat.'',
                   Prompt ''You: '', ?couldnt, Prompt ''You: '', Print ''Chatbot session ended.''],
         requests = [''hello'']\<rparr>)"
    unfolding aws_chatbot_def by (rule trans)
  from h1 a h2 b h3 c h4 d h5 h6 g show ?thesis
    by - (elim conjE, intro conjI, assumption+)
qed

subsection \<open>The Hybrid RAG retrieval\<close>

text \<open>
  C8. In the Hybrid RAG chatbot the retrieval step returns the same list of two documents
  for every pair of queries, so the assembled context does not depend on the query; the
  combined prompt is the text \<open>User query: \<close>, the query, and a remainder that is the same
  for every query.
\<close>

theorem hybrid_retrieval_ignores_query:
  "hybrid_retrieve_documents q1 = hybrid_retrieve_documents q2
   \<and> length (hybrid_retrieve_documents q1) = 2
   \<and> hybrid_context q1 = hybrid_context q2
   \<and> combined_input q1 = ''User query: '' @ q1 @ ''\<newline>\<newline>Context:\<newline>'' @ hybrid_context q2"
  by (simp add: hybrid_retrieve_documents_def hybrid_context_def combined_input_def)

end
